theory Spec2Isabelle
  imports Main
begin

section \<open>Python values and exceptions\<close>

text \<open>
  The handler of \<^verbatim>\<open>src/lambda.py\<close> receives a Python object (the SNS event) and reads
  a JSON message out of it. Values are modelled by the datatype below. Strings are
  \<^typ>\<open>string\<close>; a float is carried by its \<^verbatim>\<open>repr\<close> text; a dictionary is an
  association list with string keys, as \<^verbatim>\<open>json.loads\<close> produces them.
\<close>

datatype pyval =
    PNone
  | PBool bool
  | PInt int
  | PFloat string
  | PStr string
  | PList "pyval list"
  | PDict "(string \<times> pyval) list"

text \<open>
  Exceptions. \<open>OtherException\<close> stands for every exception class that the handler does
  not name and that a library call may raise (a \<^verbatim>\<open>requests\<close> error, a Google or AWS
  client error, \<^verbatim>\<open>OSError\<close>, \<^verbatim>\<open>binascii.Error\<close>, ...); all of them derive from
  \<^verbatim>\<open>Exception\<close>.
\<close>

datatype exn =
    KeyError pyval
  | IndexError
  | TypeError
  | ValueError string
  | JSONDecodeError
  | SMTPException string
  | OtherException string

record response =
  status_code :: int
  content :: string

record email =
  Subject :: pyval
  From :: pyval
  To :: pyval
  payload :: string

record item =
  Id :: string
  AssignmentId :: pyval
  SubmissionUrl :: pyval
  FilePath :: string
  Timestamp :: string

section \<open>The outside world\<close>

text \<open>
  Every library call whose outcome the handler cannot decide is a field of \<open>world\<close>:
  the process environment, the clock, and the result (a value or an exception) of each
  call into \<^verbatim>\<open>json\<close>, \<^verbatim>\<open>base64\<close>, \<^verbatim>\<open>requests\<close>, \<^verbatim>\<open>google.cloud.storage\<close>,
  \<^verbatim>\<open>smtplib\<close> and \<^verbatim>\<open>boto3\<close>. \<open>requests_get\<close> takes the number of the call within the
  invocation, since the handler fetches the same URL twice and the two answers may differ.
  \<open>b64decode_utf8\<close> is \<^verbatim>\<open>base64.b64decode(b).decode('utf-8')\<close>; \<open>smtp_sendmail\<close> is
  the whole statement of line 161, the rendering of the message included; \<open>json_parse\<close>
  is \<^verbatim>\<open>json.loads\<close> on a string, \<open>None\<close> when it raises \<^verbatim>\<open>JSONDecodeError\<close>;
  \<open>container_str\<close> is Python's \<^verbatim>\<open>str\<close> on lists and dictionaries.
\<close>

record world =
  environ :: "string \<rightharpoonup> string"
  now_strftime :: string
  json_parse :: "string \<Rightarrow> pyval option"
  container_str :: "pyval \<Rightarrow> string"
  b64decode_utf8 :: "string \<Rightarrow> exn + string"
  requests_get :: "nat \<Rightarrow> pyval \<Rightarrow> exn + response"
  from_service_account_info :: "pyval \<Rightarrow> exn option"
  storage_Client :: "exn option"
  client_bucket :: "string \<Rightarrow> exn option"
  upload_from_string :: "string \<Rightarrow> string \<Rightarrow> string \<Rightarrow> exn option"
  smtp_connect :: "exn option"
  smtp_login :: "pyval \<Rightarrow> pyval \<Rightarrow> exn option"
  smtp_sendmail :: "email \<Rightarrow> exn option"
  smtp_quit :: "exn option"
  boto3_resource :: "exn option"
  dynamodb_Table :: "pyval \<Rightarrow> exn option"
  put_item :: "pyval \<Rightarrow> item \<Rightarrow> exn option"

text \<open>
  The calls that leave the process, in the order they are made, each with its outcome
  (\<open>None\<close>: it returned; \<open>Some e\<close>: it raised \<open>e\<close>). \<open>LogError\<close> records a
  \<^verbatim>\<open>logger.error\<close> call by its fixed text and the exception it reports.
\<close>

datatype call =
    Fetch pyval
  | Upload string string string
  | SmtpConnect
  | SmtpLogin pyval pyval
  | SmtpSendmail email
  | SmtpQuit
  | PutItem pyval item
  | LogError string exn

type_synonym trace = "(call \<times> exn option) list"

type_synonym 'a proc = "(exn + 'a) \<times> trace"

text \<open>
  A step of the handler yields its result, or the exception it raised, together with the
  calls it made. Sequencing stops at the first exception, as Python does, and keeps the
  calls made until then; \<open>try_p\<close> is \<^verbatim>\<open>try ... except\<close> with the handler given the
  exception.
\<close>

definition pure_p :: "'a \<Rightarrow> 'a proc" where
  "pure_p x = (Inr x, [])"

definition raise_p :: "exn \<Rightarrow> 'a proc" where
  "raise_p e = (Inl e, [])"

definition lift_p :: "exn + 'a \<Rightarrow> 'a proc" where
  "lift_p r = (r, [])"

definition bind_p :: "'a proc \<Rightarrow> ('a \<Rightarrow> 'b proc) \<Rightarrow> 'b proc" where
  "bind_p m f = (case m of
       (Inl e, t) \<Rightarrow> (Inl e, t)
     | (Inr x, t) \<Rightarrow> (case f x of (r, t') \<Rightarrow> (r, t @ t')))"

definition try_p :: "'a proc \<Rightarrow> (exn \<Rightarrow> 'a proc) \<Rightarrow> 'a proc" where
  "try_p m h = (case m of
       (Inl e, t) \<Rightarrow> (case h e of (r, t') \<Rightarrow> (r, t @ t'))
     | (Inr x, t) \<Rightarrow> (Inr x, t))"

definition outcome :: "exn + 'a \<Rightarrow> exn option" where
  "outcome r = (case r of Inl e \<Rightarrow> Some e | Inr _ \<Rightarrow> None)"

definition call_p :: "call \<Rightarrow> exn + 'a \<Rightarrow> 'a proc" where
  "call_p c r = (r, [(c, outcome r)])"

definition unit_result :: "exn option \<Rightarrow> exn + unit" where
  "unit_result r = (case r of None \<Rightarrow> Inr () | Some e \<Rightarrow> Inl e)"

section \<open>Python primitives\<close>

fun digits :: "nat \<Rightarrow> string" where
  "digits n = (if n < 10 then [''0123456789'' ! n]
               else digits (n div 10) @ [''0123456789'' ! (n mod 10)])"

declare digits.simps [simp del]

definition int_str :: "int \<Rightarrow> string" where
  "int_str i = (if i < 0 then CHR ''-'' # digits (nat (- i)) else digits (nat i))"

text \<open>\<^verbatim>\<open>str(v)\<close>, which is what \<^verbatim>\<open>"{}".format(v)\<close> and an f-string insert.\<close>

definition py_str :: "world \<Rightarrow> pyval \<Rightarrow> string" where
  "py_str w v = (case v of
       PNone \<Rightarrow> ''None''
     | PBool b \<Rightarrow> (if b then ''True'' else ''False'')
     | PInt i \<Rightarrow> int_str i
     | PFloat r \<Rightarrow> r
     | PStr s \<Rightarrow> s
     | PList xs \<Rightarrow> container_str w v
     | PDict kvs \<Rightarrow> container_str w v)"

text \<open>\<^verbatim>\<open>v[k]\<close> for a string key \<open>k\<close>.\<close>

definition getitem_key :: "pyval \<Rightarrow> string \<Rightarrow> exn + pyval" where
  "getitem_key v k = (case v of
       PDict kvs \<Rightarrow> (case map_of kvs k of None \<Rightarrow> Inl (KeyError (PStr k)) | Some x \<Rightarrow> Inr x)
     | _ \<Rightarrow> Inl TypeError)"

text \<open>\<^verbatim>\<open>v[0]\<close>.\<close>

definition getitem_0 :: "pyval \<Rightarrow> exn + pyval" where
  "getitem_0 v = (case v of
       PList xs \<Rightarrow> (case xs of [] \<Rightarrow> Inl IndexError | x # _ \<Rightarrow> Inr x)
     | PStr s \<Rightarrow> (case s of [] \<Rightarrow> Inl IndexError | c # _ \<Rightarrow> Inr (PStr [c]))
     | PDict kvs \<Rightarrow> Inl (KeyError (PInt 0))
     | _ \<Rightarrow> Inl TypeError)"

text \<open>\<^verbatim>\<open>json.loads(v)\<close>: a \<^verbatim>\<open>TypeError\<close> unless \<open>v\<close> is a string.\<close>

definition json_loads :: "world \<Rightarrow> pyval \<Rightarrow> exn + pyval" where
  "json_loads w v = (case v of
       PStr s \<Rightarrow> (case json_parse w s of None \<Rightarrow> Inl JSONDecodeError | Some x \<Rightarrow> Inr x)
     | _ \<Rightarrow> Inl TypeError)"

text \<open>\<^verbatim>\<open>os.environ[k]\<close> and \<^verbatim>\<open>os.environ.get(k)\<close>.\<close>

definition environ_getitem :: "world \<Rightarrow> string \<Rightarrow> exn + string" where
  "environ_getitem w k = (case environ w k of None \<Rightarrow> Inl (KeyError (PStr k)) | Some s \<Rightarrow> Inr s)"

definition environ_get :: "world \<Rightarrow> string \<Rightarrow> pyval" where
  "environ_get w k = (case environ w k of None \<Rightarrow> PNone | Some s \<Rightarrow> PStr s)"

definition is_SMTPException :: "exn \<Rightarrow> bool" where
  "is_SMTPException e = (case e of SMTPException _ \<Rightarrow> True | _ \<Rightarrow> False)"

definition is_JSONDecodeError :: "exn \<Rightarrow> bool" where
  "is_JSONDecodeError e = (case e of JSONDecodeError \<Rightarrow> True | _ \<Rightarrow> False)"

section \<open>\<^verbatim>\<open>send_email\<close> (lines 131 to 166)\<close>

text \<open>
  The function has eleven positional parameters and no defaults, so a call with any
  other number of arguments raises \<^verbatim>\<open>TypeError\<close> before the body runs. The body
  builds the message, opens the connection (line 157, outside the \<^verbatim>\<open>try\<close>), logs in
  and sends inside a \<^verbatim>\<open>try\<close> that catches \<^verbatim>\<open>smtplib.SMTPException\<close> only, and quits
  (line 166, after the \<^verbatim>\<open>try\<close>).
\<close>

definition message_body :: "world \<Rightarrow> pyval \<Rightarrow> pyval \<Rightarrow> pyval \<Rightarrow> pyval \<Rightarrow> pyval \<Rightarrow> string" where
  "message_body w first_name last_name assignment_id body attempt =
     ''Hello '' @ py_str w first_name @ '' '' @ py_str w last_name @ '','' @
     ''\<newline>\<newline>'' @
     ''Your submission with assignment ID '' @ py_str w assignment_id @ '' has been processed'' @
     ''\<newline>'' @
     py_str w body @
     ''\<newline>'' @
     ''Attempt  - '' @ py_str w attempt @
     ''\<newline>\<newline>'' @
     ''Regards,'' @
     ''\<newline>'' @
     ''Team Assessment Inc.''"

text \<open>Lines 137 to 155: the message built from the eleven arguments.\<close>

definition mime_message :: "world \<Rightarrow> pyval list \<Rightarrow> email" where
  "mime_message w args =
     (let user_email = args ! 2; first_name = args ! 3; last_name = args ! 4;
          assignment_id = args ! 6; attempt = args ! 7; source_email = args ! 8;
          subject = args ! 9; body = args ! 10
      in \<lparr>Subject = subject, From = source_email, To = user_email,
          payload = message_body w first_name last_name assignment_id body attempt\<rparr>)"

definition send_email :: "world \<Rightarrow> pyval list \<Rightarrow> unit proc" where
  "send_email w args =
     (if length args \<noteq> 11 then raise_p TypeError
      else
        let mailgun_user_name = args ! 0; mailgun_key = args ! 1;
            msg = mime_message w args
        in
        bind_p (call_p SmtpConnect (unit_result (smtp_connect w))) (\<lambda>_.
        bind_p (try_p
                 (bind_p (call_p (SmtpLogin mailgun_user_name mailgun_key)
                            (unit_result (smtp_login w mailgun_user_name mailgun_key))) (\<lambda>_.
                  call_p (SmtpSendmail msg) (unit_result (smtp_sendmail w msg))))
                 (\<lambda>e. if is_SMTPException e
                      then call_p (LogError ''SMTPException: '' e) (Inr ())
                      else raise_p e)) (\<lambda>_.
        call_p SmtpQuit (unit_result (smtp_quit w)))))"

section \<open>\<^verbatim>\<open>update_dynamodb\<close> (lines 169 to 182)\<close>

definition update_dynamodb :: "world \<Rightarrow> pyval \<Rightarrow> pyval \<Rightarrow> pyval \<Rightarrow> string \<Rightarrow> string \<Rightarrow> unit proc" where
  "update_dynamodb w user_email assignment_id submission_url full_path timestamp =
     (let table_name = environ_get w ''DYNAMO_TABLE_NAME'';
          partition_key = py_str w user_email @ ''#'' @ py_str w assignment_id @ ''#'' @ timestamp
      in
      bind_p (lift_p (unit_result (boto3_resource w))) (\<lambda>_.
      bind_p (lift_p (unit_result (dynamodb_Table w table_name))) (\<lambda>_.
      let it = \<lparr>Id = partition_key, AssignmentId = assignment_id,
                SubmissionUrl = submission_url, FilePath = full_path, Timestamp = timestamp\<rparr>
      in call_p (PutItem table_name it) (unit_result (put_item w table_name it)))))"

section \<open>\<^verbatim>\<open>lambda_handler\<close> (lines 14 to 128)\<close>

text \<open>
  The handler is one function in the source; it is cut here into the three stretches
  that its control flow has: reading the message (lines 19 to 33), the unconditional
  preparation (lines 39 to 64) and the guarded dispatch (lines 66 to 128). The
  \<^verbatim>\<open>logger.info\<close> and \<^verbatim>\<open>print\<close> calls are left out: they cannot raise and no
  property below speaks of them.
\<close>

record submission =
  status :: pyval
  submission_url :: pyval
  user_email :: pyval
  assignment_id :: pyval
  first_name :: pyval
  last_name :: pyval
  attempt :: pyval

record config =
  bucket_name :: string
  source_email :: pyval
  mailgun_user_name :: pyval
  mailgun_key :: pyval

text \<open>Line 19: \<^verbatim>\<open>event['Records'][0]['Sns']['Message']\<close>.\<close>

definition event_message :: "pyval \<Rightarrow> exn + pyval" where
  "event_message event =
     (case getitem_key event ''Records'' of
        Inl e \<Rightarrow> Inl e
      | Inr records \<Rightarrow>
          (case getitem_0 records of
             Inl e \<Rightarrow> Inl e
           | Inr record0 \<Rightarrow>
               (case getitem_key record0 ''Sns'' of
                  Inl e \<Rightarrow> Inl e
                | Inr sns \<Rightarrow> getitem_key sns ''Message'')))"

text \<open>Lines 19 to 33.\<close>

definition read_message :: "world \<Rightarrow> pyval \<Rightarrow> submission proc" where
  "read_message w event =
     bind_p (lift_p (event_message event)) (\<lambda>message_str.
     bind_p (lift_p (json_loads w message_str)) (\<lambda>message.
     bind_p (lift_p (getitem_key message ''status'')) (\<lambda>status.
     bind_p (lift_p (getitem_key message ''submissionUrl'')) (\<lambda>submission_url.
     bind_p (lift_p (getitem_key message ''userEmail'')) (\<lambda>user_email.
     bind_p (lift_p (getitem_key message ''assignmentId'')) (\<lambda>assignment_id.
     bind_p (lift_p (getitem_key message ''first_name'')) (\<lambda>first_name.
     bind_p (lift_p (getitem_key message ''last_name'')) (\<lambda>last_name.
     bind_p (lift_p (getitem_key message ''attempt'')) (\<lambda>attempt.
     pure_p \<lparr>status = status, submission_url = submission_url, user_email = user_email,
             assignment_id = assignment_id, first_name = first_name,
             last_name = last_name, attempt = attempt\<rparr>)))))))))"

text \<open>
  Lines 39 to 64. The fetch of line 39 comes first and its response is not used. The
  \<^verbatim>\<open>except json.JSONDecodeError\<close> of lines 47 to 52 logs and raises again.
\<close>

definition prepare :: "world \<Rightarrow> submission \<Rightarrow> config proc" where
  "prepare w s =
     bind_p (call_p (Fetch (submission_url s)) (requests_get w 0 (submission_url s))) (\<lambda>response.
     bind_p (lift_p (environ_getitem w ''GOOGLE_CREDENTIALS'')) (\<lambda>google_creds_base64.
     bind_p (lift_p (b64decode_utf8 w google_creds_base64)) (\<lambda>google_creds_json.
     bind_p (try_p (lift_p (json_loads w (PStr google_creds_json)))
               (\<lambda>e. if is_JSONDecodeError e
                    then bind_p (call_p (LogError ''Error: '' e) (Inr ())) (\<lambda>_. raise_p e)
                    else raise_p e)) (\<lambda>google_creds.
     bind_p (lift_p (unit_result (from_service_account_info w google_creds))) (\<lambda>_.
     bind_p (lift_p (unit_result (storage_Client w))) (\<lambda>_.
     bind_p (lift_p (environ_getitem w ''GCP_BUCKET_NAME'')) (\<lambda>gcp_bucket_name.
     bind_p (lift_p (unit_result (client_bucket w gcp_bucket_name))) (\<lambda>_.
     pure_p \<lparr>bucket_name = gcp_bucket_name,
             source_email = environ_get w ''FROM_ADDRESS'',
             mailgun_user_name = environ_get w ''MAILGUN_USERNAME'',
             mailgun_key = environ_get w ''MAILGUN_SMTP_KEY''\<rparr>))))))))"

definition full_path_of :: "world \<Rightarrow> submission \<Rightarrow> string \<Rightarrow> string" where
  "full_path_of w s timestamp =
     (let directory_path = py_str w (user_email s) @ ''/'' @ py_str w (assignment_id s) @ ''/'';
          unique_file_name = ''submission_'' @ py_str w (attempt s) @ ''_'' @ timestamp @ ''.zip''
      in directory_path @ unique_file_name)"

definition success_body :: "string \<Rightarrow> string" where
  "success_body full_path =
     ''We are happy to notify you that your assignment submission has been received and accepted.'' @
     ''\<newline>\<newline>Submission Path  - '' @ full_path"

text \<open>The eleven arguments that lines 90, 101, 107, 113 and 119 pass to \<^verbatim>\<open>send_email\<close>.\<close>

definition notify_args :: "submission \<Rightarrow> config \<Rightarrow> string \<Rightarrow> string \<Rightarrow> pyval list" where
  "notify_args s cfg subject body =
     [mailgun_user_name cfg, mailgun_key cfg, user_email s, first_name s, last_name s,
      submission_url s, assignment_id s, attempt s, source_email cfg, PStr subject, PStr body]"

text \<open>Lines 67 to 123, the body of the \<^verbatim>\<open>try\<close>.\<close>

definition dispatch :: "world \<Rightarrow> submission \<Rightarrow> config \<Rightarrow> unit proc" where
  "dispatch w s cfg =
     (if status s = PStr ''SUCCESS'' then
        bind_p (call_p (Fetch (submission_url s)) (requests_get w 1 (submission_url s))) (\<lambda>response.
        let file_content = content response in
        if status_code response \<noteq> 200 \<or> file_content = []
        then raise_p (ValueError ''Invalid URL or empty content'')
        else
          let timestamp = now_strftime w;
              full_path = full_path_of w s timestamp
          in
          bind_p (call_p (Upload (bucket_name cfg) full_path file_content)
                    (unit_result (upload_from_string w (bucket_name cfg) full_path file_content))) (\<lambda>_.
          bind_p (send_email w (notify_args s cfg ''Submission Received Successfully''
                                  (success_body full_path))) (\<lambda>_.
          update_dynamodb w (user_email s) (assignment_id s) (submission_url s) full_path timestamp)))
      else if status s = PStr ''NO_CONTENT'' then
        send_email w (notify_args s cfg ''Submission Failed - Empty File''
          ''Your Submission could not be accepted as the file does not have any content'')
      else if status s = PStr ''INVALID_URL'' then
        send_email w (notify_args s cfg ''Submission Failed - Invalid URL''
          ''Your Submission could not be accepted as the URL submitted does not contain a valid zip file'')
      else if status s = PStr ''MAX_ATTEMPTS'' then
        send_email w (notify_args s cfg ''Submission Failed - max attempts reached''
          ''Your Submission could not be accepted as you have reached maximum number of attempts'')
      else if status s = PStr ''DEADLINE_PASSED'' then
        send_email w (notify_args s cfg ''Submission Failed - Deadline Passed''
          ''Your Submission could not be accepted as the has passed'')
      else raise_p (ValueError ''Non-success status received''))"

text \<open>
  Lines 125 to 128, the handler of \<^verbatim>\<open>except Exception\<close>: it logs and calls
  \<^verbatim>\<open>send_email\<close> with the eight arguments of line 127.
\<close>

definition on_exception :: "world \<Rightarrow> submission \<Rightarrow> config \<Rightarrow> exn \<Rightarrow> unit proc" where
  "on_exception w s cfg e =
     bind_p (call_p (LogError ''Error in processing submission: '' e) (Inr ())) (\<lambda>_.
     send_email w
       [mailgun_user_name cfg, mailgun_key cfg, user_email s, submission_url s, assignment_id s,
        source_email cfg, PStr ''Submission Error - Canvas'',
        PStr ''There was an error with your submission. Please ensure the URL is correct and the content is not empty.''])"

definition lambda_handler :: "world \<Rightarrow> pyval \<Rightarrow> unit proc" where
  "lambda_handler w event =
     bind_p (read_message w event) (\<lambda>s.
     bind_p (prepare w s) (\<lambda>cfg.
     try_p (dispatch w s cfg) (on_exception w s cfg)))"

section \<open>Reading a trace\<close>

definition is_Fetch :: "call \<Rightarrow> bool" where
  "is_Fetch c = (case c of Fetch _ \<Rightarrow> True | _ \<Rightarrow> False)"

definition is_Upload :: "call \<Rightarrow> bool" where
  "is_Upload c = (case c of Upload _ _ _ \<Rightarrow> True | _ \<Rightarrow> False)"

definition is_PutItem :: "call \<Rightarrow> bool" where
  "is_PutItem c = (case c of PutItem _ _ \<Rightarrow> True | _ \<Rightarrow> False)"

definition is_Smtp :: "call \<Rightarrow> bool" where
  "is_Smtp c = (case c of SmtpConnect \<Rightarrow> True | SmtpLogin _ _ \<Rightarrow> True
                 | SmtpSendmail _ \<Rightarrow> True | SmtpQuit \<Rightarrow> True | _ \<Rightarrow> False)"

text \<open>The calls of one kind that were made, whatever their outcome.\<close>

definition fetch_calls :: "trace \<Rightarrow> call list" where
  "fetch_calls tr = filter is_Fetch (map fst tr)"

definition store_calls :: "trace \<Rightarrow> call list" where
  "store_calls tr = filter is_Upload (map fst tr)"

definition record_calls :: "trace \<Rightarrow> call list" where
  "record_calls tr = filter is_PutItem (map fst tr)"

definition mail_calls :: "trace \<Rightarrow> call list" where
  "mail_calls tr = filter is_Smtp (map fst tr)"

text \<open>What was done: the uploads, puts and sends that returned.\<close>

fun stored_of :: "call \<times> exn option \<Rightarrow> (string \<times> string) list" where
  "stored_of (Upload b p d, None) = [(p, d)]"
| "stored_of _ = []"

fun recorded_of :: "call \<times> exn option \<Rightarrow> item list" where
  "recorded_of (PutItem t i, None) = [i]"
| "recorded_of _ = []"

fun sent_of :: "call \<times> exn option \<Rightarrow> email list" where
  "sent_of (SmtpSendmail m, None) = [m]"
| "sent_of _ = []"

definition stored :: "trace \<Rightarrow> (string \<times> string) list" where
  "stored tr = concat (map stored_of tr)"

definition recorded :: "trace \<Rightarrow> item list" where
  "recorded tr = concat (map recorded_of tr)"

definition sent :: "trace \<Rightarrow> email list" where
  "sent tr = concat (map sent_of tr)"

section \<open>The fields and notices of the source, as tables\<close>

text \<open>The keys read by lines 27 to 33, in that order.\<close>

definition required_fields :: "string list" where
  "required_fields = [''status'', ''submissionUrl'', ''userEmail'', ''assignmentId'',
                      ''first_name'', ''last_name'', ''attempt'']"

text \<open>
  A parsed message lacks a field when it is an object without that key, or no object at
  all. \<open>lookup_exn\<close> is the exception Python raises for \<^verbatim>\<open>v[k]\<close> in that case.
\<close>

definition lacks :: "pyval \<Rightarrow> string \<Rightarrow> bool" where
  "lacks v k = (case v of PDict kvs \<Rightarrow> map_of kvs k = None | _ \<Rightarrow> True)"

definition lookup_exn :: "pyval \<Rightarrow> string \<Rightarrow> exn" where
  "lookup_exn v k = (case v of PDict kvs \<Rightarrow> KeyError (PStr k) | _ \<Rightarrow> TypeError)"

text \<open>The status, subject and body of each notify-only branch (lines 98 to 121).\<close>

definition failure_notices :: "(string \<times> string \<times> string) list" where
  "failure_notices =
     [(''NO_CONTENT'', ''Submission Failed - Empty File'',
       ''Your Submission could not be accepted as the file does not have any content''),
      (''INVALID_URL'', ''Submission Failed - Invalid URL'',
       ''Your Submission could not be accepted as the URL submitted does not contain a valid zip file''),
      (''MAX_ATTEMPTS'', ''Submission Failed - max attempts reached'',
       ''Your Submission could not be accepted as you have reached maximum number of attempts''),
      (''DEADLINE_PASSED'', ''Submission Failed - Deadline Passed'',
       ''Your Submission could not be accepted as the has passed'')]"

text \<open>The path and the record that the specification describes for a submission.\<close>

definition spec_path :: "world \<Rightarrow> submission \<Rightarrow> string \<Rightarrow> string" where
  "spec_path w s ts =
     py_str w (user_email s) @ ''/'' @ py_str w (assignment_id s) @ ''/submission_'' @
     py_str w (attempt s) @ ''_'' @ ts @ ''.zip''"

definition spec_record :: "world \<Rightarrow> submission \<Rightarrow> string \<Rightarrow> item" where
  "spec_record w s ts =
     \<lparr>Id = py_str w (user_email s) @ ''#'' @ py_str w (assignment_id s) @ ''#'' @ ts,
      AssignmentId = assignment_id s, SubmissionUrl = submission_url s,
      FilePath = spec_path w s ts, Timestamp = ts\<rparr>"

text \<open>
  The notice a submitter is to receive: subject, sender, recipient, and the fixed template
  around the status text.
\<close>

definition notice_email :: "world \<Rightarrow> submission \<Rightarrow> config \<Rightarrow> string \<Rightarrow> string \<Rightarrow> email" where
  "notice_email w s cfg subject body =
     \<lparr>Subject = PStr subject, From = source_email cfg, To = user_email s,
      payload = message_body w (first_name s) (last_name s) (assignment_id s) (PStr body) (attempt s)\<rparr>"

text \<open>An outcome that \<^verbatim>\<open>except smtplib.SMTPException\<close> absorbs: a return or such an exception.\<close>

definition absorbed :: "exn option \<Rightarrow> bool" where
  "absorbed r = (case r of None \<Rightarrow> True | Some e \<Rightarrow> is_SMTPException e)"

section \<open>A concrete world and concrete events\<close>

text \<open>
  A world in which every service answers, and events built around one message, to run
  the handler on. \<open>message_text st\<close> is the JSON text of a message with status \<open>st\<close>
  and \<open>message_value st\<close> the dictionary \<^verbatim>\<open>json.loads\<close> makes of it. The credential
  blob is the base64 text of \<^verbatim>\<open>{"type": "service_account"}\<close>, a service-account key
  cut down to its first field, which this world's Google client accepts.
\<close>

definition quoted :: "string \<Rightarrow> string" where
  "quoted s = CHR 0x22 # s @ [CHR 0x22]"

definition message_text :: "string \<Rightarrow> string" where
  "message_text st =
     ''{'' @ quoted ''status'' @ '': '' @ quoted st @ '', '' @
     quoted ''submissionUrl'' @ '': '' @ quoted ''https://example.com/hw1.zip'' @ '', '' @
     quoted ''userEmail'' @ '': '' @ quoted ''ada@example.com'' @ '', '' @
     quoted ''assignmentId'' @ '': '' @ quoted ''a-17'' @ '', '' @
     quoted ''first_name'' @ '': '' @ quoted ''Ada'' @ '', '' @
     quoted ''last_name'' @ '': '' @ quoted ''Byron'' @ '', '' @
     quoted ''attempt'' @ '': 2}''"

definition message_value :: "string \<Rightarrow> pyval" where
  "message_value st = PDict
     [(''status'', PStr st),
      (''submissionUrl'', PStr ''https://example.com/hw1.zip''),
      (''userEmail'', PStr ''ada@example.com''),
      (''assignmentId'', PStr ''a-17''),
      (''first_name'', PStr ''Ada''),
      (''last_name'', PStr ''Byron''),
      (''attempt'', PInt 2)]"

definition demo_submission :: "string \<Rightarrow> submission" where
  "demo_submission st =
     \<lparr>status = PStr st, submission_url = PStr ''https://example.com/hw1.zip'',
      user_email = PStr ''ada@example.com'', assignment_id = PStr ''a-17'',
      first_name = PStr ''Ada'', last_name = PStr ''Byron'', attempt = PInt 2\<rparr>"

definition demo_config :: config where
  "demo_config =
     \<lparr>bucket_name = ''submissions'', source_email = PStr ''noreply@example.com'',
      mailgun_user_name = PStr ''postmaster'', mailgun_key = PStr ''key-1''\<rparr>"

definition sns_event :: "pyval \<Rightarrow> pyval" where
  "sns_event m = PDict [(''Records'', PList [PDict [(''Sns'', PDict [(''Message'', m)])]])]"

definition demo_event :: "string \<Rightarrow> pyval" where
  "demo_event st = sns_event (PStr (message_text st))"

definition demo_statuses :: "string list" where
  "demo_statuses = [''SUCCESS'', ''NO_CONTENT'', ''INVALID_URL'', ''MAX_ATTEMPTS'',
                    ''DEADLINE_PASSED'', ''PENDING'']"

definition creds_text :: string where
  "creds_text = ''{'' @ quoted ''type'' @ '': '' @ quoted ''service_account'' @ ''}''"

definition demo_parse :: "string \<Rightarrow> pyval option" where
  "demo_parse t =
     (if t = creds_text then Some (PDict [(''type'', PStr ''service_account'')])
      else if t = ''{}'' then Some (PDict [])
      else if t = ''[]'' then Some (PList [])
      else map_option message_value (find (\<lambda>st. t = message_text st) demo_statuses))"

definition demo_b64 :: "string \<Rightarrow> exn + string" where
  "demo_b64 b =
     (if b = ''eyJ0eXBlIjogInNlcnZpY2VfYWNjb3VudCJ9'' then Inr creds_text
      else if b = ''eyJ0eXBlIjog'' then Inr (''{'' @ quoted ''type'' @ '': '')
      else Inl (OtherException ''binascii.Error''))"

definition demo_world :: world where
  "demo_world = \<lparr>
     environ = map_of
       [(''GOOGLE_CREDENTIALS'', ''eyJ0eXBlIjogInNlcnZpY2VfYWNjb3VudCJ9''),
        (''GCP_BUCKET_NAME'', ''submissions''),
        (''FROM_ADDRESS'', ''noreply@example.com''),
        (''MAILGUN_USERNAME'', ''postmaster''),
        (''MAILGUN_SMTP_KEY'', ''key-1''),
        (''DYNAMO_TABLE_NAME'', ''Submissions'')],
     now_strftime = ''20231120153000'',
     json_parse = demo_parse,
     container_str = (\<lambda>_. []),
     b64decode_utf8 = demo_b64,
     requests_get = (\<lambda>_ _. Inr \<lparr>status_code = 200, content = ''PK-archive''\<rparr>),
     from_service_account_info = (\<lambda>_. None),
     storage_Client = None,
     client_bucket = (\<lambda>_. None),
     upload_from_string = (\<lambda>_ _ _. None),
     smtp_connect = None,
     smtp_login = (\<lambda>_ _. None),
     smtp_sendmail = (\<lambda>_. None),
     smtp_quit = None,
     boto3_resource = None,
     dynamodb_Table = (\<lambda>_. None),
     put_item = (\<lambda>_ _. None)\<rparr>"

text \<open>
  Worlds that differ from \<open>demo_world\<close> in one service: the URL answers 404; the record
  put is refused; the credential blob is the base64 text of the truncated JSON
  \<^verbatim>\<open>{"type": \<close>; the mail relay refuses the connection; the URL cannot be reached.
\<close>

definition not_found_world :: world where
  "not_found_world =
     demo_world\<lparr>requests_get := (\<lambda>_ _. Inr \<lparr>status_code = 404, content = ''Not Found''\<rparr>)\<rparr>"

definition put_refused_world :: world where
  "put_refused_world =
     demo_world\<lparr>put_item := (\<lambda>_ _. Some (OtherException ''botocore.exceptions.ClientError''))\<rparr>"

definition bad_credentials_world :: world where
  "bad_credentials_world =
     demo_world\<lparr>environ := (environ demo_world)(''GOOGLE_CREDENTIALS'' \<mapsto> ''eyJ0eXBlIjog'')\<rparr>"

definition no_relay_world :: world where
  "no_relay_world = demo_world\<lparr>smtp_connect := Some (SMTPException ''SMTPConnectError'')\<rparr>"

definition unreachable_world :: world where
  "unreachable_world =
     demo_world\<lparr>requests_get := (\<lambda>_ _. Inl (OtherException ''requests.exceptions.ConnectionError''))\<rparr>"

definition login_refused_world :: world where
  "login_refused_world =
     demo_world\<lparr>smtp_login := (\<lambda>_ _. Some (SMTPException ''SMTPAuthenticationError''))\<rparr>"

section \<open>Sequencing and trace lemmas\<close>

lemma bind_p_Inl [simp]: "bind_p (Inl e, t) f = (Inl e, t)"
  by (simp add: bind_p_def)

lemma bind_p_Inr [simp]: "bind_p (Inr x, t) f = (case f x of (r, t') \<Rightarrow> (r, t @ t'))"
  by (simp add: bind_p_def)

lemma try_p_Inl [simp]: "try_p (Inl e, t) h = (case h e of (r, t') \<Rightarrow> (r, t @ t'))"
  by (simp add: try_p_def)

lemma try_p_Inr [simp]: "try_p (Inr x, t) h = (Inr x, t)"
  by (simp add: try_p_def)

lemma fst_bind_p: "fst (bind_p m f) = (case fst m of Inl e \<Rightarrow> Inl e | Inr x \<Rightarrow> fst (f x))"
  by (cases m) (auto simp: bind_p_def split: sum.splits prod.splits)

lemma snd_bind_p: "snd (bind_p m f) = snd m @ (case fst m of Inl e \<Rightarrow> [] | Inr x \<Rightarrow> snd (f x))"
  by (cases m) (auto simp: bind_p_def split: sum.splits prod.splits)

lemma fst_try_p: "fst (try_p m h) = (case fst m of Inl e \<Rightarrow> fst (h e) | Inr x \<Rightarrow> Inr x)"
  by (cases m) (auto simp: try_p_def split: sum.splits prod.splits)

lemma snd_try_p: "snd (try_p m h) = snd m @ (case fst m of Inl e \<Rightarrow> snd (h e) | Inr x \<Rightarrow> [])"
  by (cases m) (auto simp: try_p_def split: sum.splits prod.splits)

lemmas proc_defs = pure_p_def raise_p_def lift_p_def call_p_def
  outcome_def unit_result_def

lemmas prim_defs = getitem_key_def getitem_0_def json_loads_def environ_getitem_def
  environ_get_def is_SMTPException_def is_JSONDecodeError_def py_str_def int_str_def

lemmas demo_defs = demo_world_def demo_event_def sns_event_def message_text_def
  message_value_def demo_parse_def demo_b64_def creds_text_def quoted_def demo_statuses_def
  demo_submission_def demo_config_def

lemmas kind_defs = is_Fetch_def is_Upload_def is_PutItem_def is_Smtp_def

lemma proj_Nil [simp]:
  "fetch_calls [] = []" "store_calls [] = []" "record_calls [] = []" "mail_calls [] = []"
  "stored [] = []" "recorded [] = []" "sent [] = []"
  by (simp_all add: fetch_calls_def store_calls_def record_calls_def mail_calls_def
        stored_def recorded_def sent_def)

lemma proj_append [simp]:
  "fetch_calls (a @ b) = fetch_calls a @ fetch_calls b"
  "store_calls (a @ b) = store_calls a @ store_calls b"
  "record_calls (a @ b) = record_calls a @ record_calls b"
  "mail_calls (a @ b) = mail_calls a @ mail_calls b"
  "stored (a @ b) = stored a @ stored b"
  "recorded (a @ b) = recorded a @ recorded b"
  "sent (a @ b) = sent a @ sent b"
  by (simp_all add: fetch_calls_def store_calls_def record_calls_def mail_calls_def
        stored_def recorded_def sent_def)

lemma proj_Cons [simp]:
  "fetch_calls ((c, r) # t) = (if is_Fetch c then [c] else []) @ fetch_calls t"
  "store_calls ((c, r) # t) = (if is_Upload c then [c] else []) @ store_calls t"
  "record_calls ((c, r) # t) = (if is_PutItem c then [c] else []) @ record_calls t"
  "mail_calls ((c, r) # t) = (if is_Smtp c then [c] else []) @ mail_calls t"
  "stored ((c, r) # t) = stored_of (c, r) @ stored t"
  "recorded ((c, r) # t) = recorded_of (c, r) @ recorded t"
  "sent ((c, r) # t) = sent_of (c, r) @ sent t"
  by (simp_all add: fetch_calls_def store_calls_def record_calls_def mail_calls_def
        stored_def recorded_def sent_def)

lemma on_exception_raises:
  "on_exception w s cfg e = (Inl TypeError, [(LogError ''Error in processing submission: '' e, None)])"
  by (simp add: on_exception_def send_email_def proc_defs)

lemma read_message_no_calls: "snd (read_message w event) = []"
  by (simp add: read_message_def snd_bind_p proc_defs split: sum.splits)

lemma send_email_frame:
  "fetch_calls (snd (send_email w args)) = []"
  "store_calls (snd (send_email w args)) = []"
  "record_calls (snd (send_email w args)) = []"
  "stored (snd (send_email w args)) = []"
  "recorded (snd (send_email w args)) = []"
  by (simp_all add: send_email_def snd_bind_p fst_bind_p snd_try_p fst_try_p proc_defs kind_defs Let_def
        split: sum.splits option.splits)

lemma update_dynamodb_frame:
  "fetch_calls (snd (update_dynamodb w ue ai su fp ts)) = []"
  "store_calls (snd (update_dynamodb w ue ai su fp ts)) = []"
  "mail_calls (snd (update_dynamodb w ue ai su fp ts)) = []"
  "stored (snd (update_dynamodb w ue ai su fp ts)) = []"
  "sent (snd (update_dynamodb w ue ai su fp ts)) = []"
  by (simp_all add: update_dynamodb_def snd_bind_p fst_bind_p proc_defs kind_defs Let_def
        split: sum.splits option.splits)

lemma update_dynamodb_recorded:
  "it \<in> set (recorded (snd (update_dynamodb w ue ai su fp ts))) \<Longrightarrow> FilePath it = fp \<and> Timestamp it = ts"
  by (auto simp add: update_dynamodb_def snd_bind_p fst_bind_p proc_defs kind_defs Let_def
        split: sum.splits option.splits)

lemma prepare_frame:
  "fetch_calls (snd (prepare w s)) = [Fetch (submission_url s)]"
  "store_calls (snd (prepare w s)) = []"
  "record_calls (snd (prepare w s)) = []"
  "mail_calls (snd (prepare w s)) = []"
  "stored (snd (prepare w s)) = []"
  "recorded (snd (prepare w s)) = []"
  "sent (snd (prepare w s)) = []"
  by (simp_all add: prepare_def snd_bind_p fst_bind_p snd_try_p fst_try_p proc_defs kind_defs
        split: sum.splits option.splits)


lemma handler_calls:
  "snd (lambda_handler w event) =
     (case fst (read_message w event) of
        Inl e \<Rightarrow> []
      | Inr s \<Rightarrow> snd (prepare w s) @
          (case fst (prepare w s) of
             Inl e \<Rightarrow> []
           | Inr cfg \<Rightarrow> snd (dispatch w s cfg) @
               (case fst (dispatch w s cfg) of
                  Inl e \<Rightarrow> [(LogError ''Error in processing submission: '' e, None)]
                | Inr u \<Rightarrow> [])))"
  by (simp add: lambda_handler_def snd_bind_p snd_try_p read_message_no_calls on_exception_raises
        split: sum.splits)

lemma handler_result:
  "fst (lambda_handler w event) =
     (case fst (read_message w event) of
        Inl e \<Rightarrow> Inl e
      | Inr s \<Rightarrow>
          (case fst (prepare w s) of
             Inl e \<Rightarrow> Inl e
           | Inr cfg \<Rightarrow>
               (case fst (dispatch w s cfg) of Inl e \<Rightarrow> Inl TypeError | Inr u \<Rightarrow> Inr u)))"
  by (simp add: lambda_handler_def fst_bind_p fst_try_p on_exception_raises split: sum.splits)

lemma dispatch_fetch_calls:
  "fetch_calls (snd (dispatch w s cfg)) =
     (if status s = PStr ''SUCCESS'' then [Fetch (submission_url s)] else [])"
  by (simp add: dispatch_def snd_bind_p fst_bind_p send_email_frame update_dynamodb_frame
        proc_defs kind_defs Let_def split: sum.splits option.splits)

lemma dispatch_notify_only:
  assumes "status s \<noteq> PStr ''SUCCESS''"
  shows "store_calls (snd (dispatch w s cfg)) = []"
    and "record_calls (snd (dispatch w s cfg)) = []"
    and "stored (snd (dispatch w s cfg)) = []"
    and "recorded (snd (dispatch w s cfg)) = []"
  using assms by (simp_all add: dispatch_def send_email_frame proc_defs)

lemma dispatch_record_after_blob:
  assumes "it \<in> set (recorded (snd (dispatch w s cfg)))"
  shows "\<exists>d. (FilePath it, d) \<in> set (stored (snd (dispatch w s cfg)))"
proof (cases "status s = PStr ''SUCCESS''")
  case False
  with assms show ?thesis by (simp add: dispatch_notify_only)
next
  case True
  with assms show ?thesis
    by (auto simp add: dispatch_def snd_bind_p fst_bind_p send_email_frame update_dynamodb_frame
        proc_defs kind_defs Let_def dest: update_dynamodb_recorded
        split: sum.splits option.splits if_splits)
qed

lemma dispatch_returns_together:
  assumes "fst (dispatch w s cfg) = Inr u"
  shows "(stored (snd (dispatch w s cfg)) = []) = (recorded (snd (dispatch w s cfg)) = [])"
proof (cases "status s = PStr ''SUCCESS''")
  case False
  then show ?thesis by (simp add: dispatch_notify_only)
next
  case True
  with assms show ?thesis
    by (auto simp add: dispatch_def snd_bind_p fst_bind_p send_email_frame
        update_dynamodb_def proc_defs kind_defs Let_def
        split: sum.splits option.splits if_splits)
qed

lemma event_message_sns_event: "event_message (sns_event m) = Inr m"
  by (simp add: event_message_def sns_event_def getitem_key_def getitem_0_def)

lemma mime_message_notify_args:
  "mime_message w (notify_args s cfg subject body) = notice_email w s cfg subject body"
  by (simp add: mime_message_def notify_args_def notice_email_def)

lemma full_path_of_spec_path: "full_path_of w s ts = spec_path w s ts"
  by (simp add: full_path_of_def spec_path_def)

lemma prepare_ok_calls:
  assumes "fst (prepare w s) = Inr cfg"
  shows "snd (prepare w s) = [(Fetch (submission_url s), None)]"
  using assms
  by (auto simp add: prepare_def snd_bind_p fst_bind_p snd_try_p fst_try_p proc_defs
        split: sum.splits option.splits if_splits)

lemma send_email_ok:
  assumes "smtp_connect w = None"
    and "smtp_login w (mailgun_user_name cfg) (mailgun_key cfg) = None"
    and "smtp_sendmail w (notice_email w s cfg subject body) = None"
    and "smtp_quit w = None"
  shows "send_email w (notify_args s cfg subject body) =
           (Inr (), [(SmtpConnect, None),
                     (SmtpLogin (mailgun_user_name cfg) (mailgun_key cfg), None),
                     (SmtpSendmail (notice_email w s cfg subject body), None),
                     (SmtpQuit, None)])"
  using assms
  by (simp add: send_email_def notify_args_def mime_message_def notice_email_def proc_defs)

lemma update_dynamodb_ok:
  assumes "boto3_resource w = None"
    and "dynamodb_Table w (environ_get w ''DYNAMO_TABLE_NAME'') = None"
    and "put_item w (environ_get w ''DYNAMO_TABLE_NAME'') (spec_record w s ts) = None"
  shows "update_dynamodb w (user_email s) (assignment_id s) (submission_url s) (spec_path w s ts) ts =
           (Inr (), [(PutItem (environ_get w ''DYNAMO_TABLE_NAME'') (spec_record w s ts), None)])"
  using assms by (simp add: update_dynamodb_def spec_record_def proc_defs)

lemma dispatch_success_ok:
  assumes "status s = PStr ''SUCCESS''"
    and "requests_get w 1 (submission_url s) = Inr r"
    and "status_code r = 200" and "content r \<noteq> []"
    and "upload_from_string w (bucket_name cfg) (spec_path w s (now_strftime w)) (content r) = None"
    and "smtp_connect w = None"
    and "smtp_login w (mailgun_user_name cfg) (mailgun_key cfg) = None"
    and "smtp_sendmail w (notice_email w s cfg ''Submission Received Successfully''
           (success_body (spec_path w s (now_strftime w)))) = None"
    and "smtp_quit w = None"
    and "boto3_resource w = None"
    and "dynamodb_Table w (environ_get w ''DYNAMO_TABLE_NAME'') = None"
    and "put_item w (environ_get w ''DYNAMO_TABLE_NAME'') (spec_record w s (now_strftime w)) = None"
  shows "dispatch w s cfg =
     (Inr (),
      [(Fetch (submission_url s), None),
       (Upload (bucket_name cfg) (spec_path w s (now_strftime w)) (content r), None),
       (SmtpConnect, None),
       (SmtpLogin (mailgun_user_name cfg) (mailgun_key cfg), None),
       (SmtpSendmail (notice_email w s cfg ''Submission Received Successfully''
          (success_body (spec_path w s (now_strftime w)))), None),
       (SmtpQuit, None),
       (PutItem (environ_get w ''DYNAMO_TABLE_NAME'') (spec_record w s (now_strftime w)), None)])"
  using assms
  by (simp add: dispatch_def full_path_of_spec_path send_email_ok update_dynamodb_ok proc_defs Let_def)

lemma handler_from_phases:
  assumes "fst (read_message w event) = Inr s" and "fst (prepare w s) = Inr cfg"
    and "dispatch w s cfg = (Inr u, tr)"
  shows "lambda_handler w event = (Inr u, (Fetch (submission_url s), None) # tr)"
proof -
  have "fst (lambda_handler w event) = Inr u"
    using assms by (simp add: handler_result)
  moreover have "snd (lambda_handler w event) = (Fetch (submission_url s), None) # tr"
    using assms by (simp add: handler_calls prepare_ok_calls)
  ultimately show ?thesis by (simp add: prod_eq_iff)
qed


lemma demo_read_message:
  "st \<in> set demo_statuses \<Longrightarrow>
     read_message demo_world (demo_event st) = (Inr (demo_submission st), [])"
  by (auto simp add: read_message_def event_message_def proc_defs prim_defs demo_defs)

lemma demo_prepare:
  "prepare demo_world (demo_submission st) =
     (Inr demo_config, [(Fetch (PStr ''https://example.com/hw1.zip''), None)])"
  by (simp add: prepare_def proc_defs prim_defs demo_defs)

lemma demo_spec_path:
  "spec_path demo_world (demo_submission st) ts =
     ''ada@example.com/a-17/submission_2_'' @ ts @ ''.zip''"
  by (simp add: spec_path_def demo_submission_def py_str_def int_str_def digits.simps)

lemmas eval_defs = lambda_handler_def read_message_def prepare_def dispatch_def
  on_exception_def send_email_def update_dynamodb_def event_message_def mime_message_def
  message_body_def notify_args_def full_path_of_def success_body_def
  proc_defs prim_defs demo_defs Let_def digits.simps

lemma dispatch_failure_notice:
  assumes "(st, subject, body) \<in> set failure_notices" and "status s = PStr st"
  shows "dispatch w s cfg = send_email w (notify_args s cfg subject body)"
  using assms by (auto simp add: failure_notices_def dispatch_def)

text \<open>
  Whatever exception the dispatch raises, the call of line 127 turns it into a
  \<^verbatim>\<open>TypeError\<close> that leaves the handler, and adds no email to those already sent.
\<close>

lemma dispatch_exception_escapes:
  assumes "fst (read_message w event) = Inr s" and "fst (prepare w s) = Inr cfg"
    and "fst (dispatch w s cfg) = Inl e"
  shows "fst (lambda_handler w event) = Inl TypeError"
    and "sent (snd (lambda_handler w event)) = sent (snd (dispatch w s cfg))"
  using assms by (simp_all add: handler_result handler_calls prepare_frame)

section \<open>The fetch of line 39 in every invocation\<close>

text \<open>
  Line 39 calls \<^verbatim>\<open>requests.get\<close> outside the \<^verbatim>\<open>try\<close> and before the status is
  examined; the response it binds is never read (line 68 binds the name again, the other
  branches do not use it). The three lemmas say what that call does to an invocation in
  any world: it is the first call made, whatever the status; it has been made when
  malformed credentials are detected; and a failure notice goes out only if it returns.
\<close>

lemma first_call_is_fetch:
  assumes "fst (read_message w event) = Inr s"
  shows "(\<exists>rest. snd (lambda_handler w event) =
            (Fetch (submission_url s), outcome (requests_get w 0 (submission_url s))) # rest)
    \<and> fetch_calls (snd (lambda_handler w event)) =
        (case fst (prepare w s) of
           Inl e \<Rightarrow> [Fetch (submission_url s)]
         | Inr cfg \<Rightarrow>
             if status s = PStr ''SUCCESS''
             then [Fetch (submission_url s), Fetch (submission_url s)]
             else [Fetch (submission_url s)])"
proof -
  have first: "\<exists>rest. snd (prepare w s) =
      (Fetch (submission_url s), outcome (requests_get w 0 (submission_url s))) # rest"
    by (simp add: prepare_def snd_bind_p call_p_def)
  have "\<exists>rest. snd (lambda_handler w event) =
      (Fetch (submission_url s), outcome (requests_get w 0 (submission_url s))) # rest"
    using assms first by (auto simp add: handler_calls)
  moreover have "fetch_calls (snd (lambda_handler w event)) =
        (case fst (prepare w s) of
           Inl e \<Rightarrow> [Fetch (submission_url s)]
         | Inr cfg \<Rightarrow>
             if status s = PStr ''SUCCESS''
             then [Fetch (submission_url s), Fetch (submission_url s)]
             else [Fetch (submission_url s)])"
    using assms
    by (simp add: handler_calls prepare_frame dispatch_fetch_calls kind_defs split: sum.splits)
  ultimately show ?thesis by blast
qed

lemma bad_credentials_calls:
  assumes "fst (read_message w event) = Inr s"
    and "environ w ''GOOGLE_CREDENTIALS'' = Some b"
    and "b64decode_utf8 w b = Inr text"
    and "json_parse w text = None"
  shows "fst (lambda_handler w event) =
           (case requests_get w 0 (submission_url s) of Inl e \<Rightarrow> Inl e | Inr r \<Rightarrow> Inl JSONDecodeError)
    \<and> fetch_calls (snd (lambda_handler w event)) = [Fetch (submission_url s)]
    \<and> store_calls (snd (lambda_handler w event)) = []
    \<and> mail_calls (snd (lambda_handler w event)) = []
    \<and> record_calls (snd (lambda_handler w event)) = []"
proof -
  have prep: "fst (prepare w s) =
      (case requests_get w 0 (submission_url s) of Inl e \<Rightarrow> Inl e | Inr r \<Rightarrow> Inl JSONDecodeError)"
    using assms(2-4)
    by (simp add: prepare_def fst_bind_p fst_try_p proc_defs prim_defs split: sum.splits)
  show ?thesis
  proof (cases "requests_get w 0 (submission_url s)")
    case (Inl e)
    with assms(1) prep show ?thesis
      by (simp add: handler_result handler_calls prepare_frame)
  next
    case (Inr r)
    with assms(1) prep show ?thesis
      by (simp add: handler_result handler_calls prepare_frame)
  qed
qed

lemma failure_status_calls:
  assumes "fst (read_message w event) = Inr s"
    and "(st, subject, body) \<in> set failure_notices" and "status s = PStr st"
  shows "store_calls (snd (lambda_handler w event)) = []
    \<and> record_calls (snd (lambda_handler w event)) = []
    \<and> (fst (prepare w s) = Inr cfg \<longrightarrow> smtp_connect w = None \<longrightarrow>
        smtp_login w (mailgun_user_name cfg) (mailgun_key cfg) = None \<longrightarrow>
        smtp_sendmail w (notice_email w s cfg subject body) = None \<longrightarrow>
        smtp_quit w = None \<longrightarrow>
          fst (lambda_handler w event) = Inr ()
          \<and> sent (snd (lambda_handler w event)) = [notice_email w s cfg subject body])"
proof -
  have ns: "status s \<noteq> PStr ''SUCCESS''"
    using assms(2,3) by (auto simp add: failure_notices_def)
  have frame: "store_calls (snd (lambda_handler w event)) = []
      \<and> record_calls (snd (lambda_handler w event)) = []"
    using assms(1) ns
    by (simp add: handler_calls prepare_frame dispatch_notify_only kind_defs split: sum.splits)
  have "fst (lambda_handler w event) = Inr ()
      \<and> sent (snd (lambda_handler w event)) = [notice_email w s cfg subject body]"
    if prep: "fst (prepare w s) = Inr cfg" and mail: "smtp_connect w = None"
      "smtp_login w (mailgun_user_name cfg) (mailgun_key cfg) = None"
      "smtp_sendmail w (notice_email w s cfg subject body) = None" "smtp_quit w = None"
  proof -
    have "dispatch w s cfg = (Inr (), [(SmtpConnect, None),
                     (SmtpLogin (mailgun_user_name cfg) (mailgun_key cfg), None),
                     (SmtpSendmail (notice_email w s cfg subject body), None),
                     (SmtpQuit, None)])"
      by (simp add: dispatch_failure_notice [OF assms(2,3)] send_email_ok [OF mail])
    from handler_from_phases [OF assms(1) prep this] show ?thesis
      by simp
  qed
  with frame show ?thesis by blast
qed

section \<open>The claims\<close>

text \<open>
  Claim C9. For every event whose embedded message string is not parseable as JSON, the
  invocation fails: the parse exception of line 23 propagates, and no call of any kind
  (so no email) has been made before it.
\<close>

theorem malformed_message_fails_before_any_call:
  assumes "event_message event = Inr (PStr m)" and "json_parse w m = None"
  shows "lambda_handler w event = (Inl JSONDecodeError, [])"
  using assms by (simp add: lambda_handler_def read_message_def json_loads_def proc_defs)

theorem malformed_message_fails_before_any_call_witness:
  "event_message (sns_event (PStr ''status=SUCCESS'')) = Inr (PStr ''status=SUCCESS'')
   \<and> json_parse demo_world ''status=SUCCESS'' = None
   \<and> lambda_handler demo_world (sns_event (PStr ''status=SUCCESS'')) = (Inl JSONDecodeError, [])"
proof -
  have h1: "event_message (sns_event (PStr ''status=SUCCESS'')) = Inr (PStr ''status=SUCCESS'')"
    by (rule event_message_sns_event)
  have h2: "json_parse demo_world ''status=SUCCESS'' = None"
    by (simp add: demo_defs)
  show ?thesis
    using h1 h2 malformed_message_fails_before_any_call [OF h1 h2] by simp
qed

text \<open>
  Claim C3. For every valid SUCCESS event whose fetch returns status 200 and a non-empty
  body, and whose downstream calls succeed: the object store receives exactly one write,
  at the path \<^verbatim>\<open>{userEmail}/{assignmentId}/submission_{attempt}_{timestamp}.zip\<close>; the
  record store receives exactly one put, whose \<open>FilePath\<close> and \<open>Timestamp\<close> are that
  path and that timestamp; and exactly one email is sent, the "accepted" notice. The
  downstream calls are the preparation of lines 39 to 64, the fetch of line 68, the
  upload, the four steps of the mail relay and the three of the record store.
\<close>

theorem success_workflow_effects:
  assumes "fst (read_message w event) = Inr s"
    and "status s = PStr ''SUCCESS''"
    and "fst (prepare w s) = Inr cfg"
    and "requests_get w 1 (submission_url s) = Inr r"
    and "status_code r = 200" and "content r \<noteq> []"
    and "upload_from_string w (bucket_name cfg) (spec_path w s (now_strftime w)) (content r) = None"
    and "smtp_connect w = None"
    and "smtp_login w (mailgun_user_name cfg) (mailgun_key cfg) = None"
    and "smtp_sendmail w (notice_email w s cfg ''Submission Received Successfully''
           (success_body (spec_path w s (now_strftime w)))) = None"
    and "smtp_quit w = None"
    and "boto3_resource w = None"
    and "dynamodb_Table w (environ_get w ''DYNAMO_TABLE_NAME'') = None"
    and "put_item w (environ_get w ''DYNAMO_TABLE_NAME'') (spec_record w s (now_strftime w)) = None"
  shows "fst (lambda_handler w event) = Inr ()
    \<and> store_calls (snd (lambda_handler w event)) =
        [Upload (bucket_name cfg) (spec_path w s (now_strftime w)) (content r)]
    \<and> stored (snd (lambda_handler w event)) = [(spec_path w s (now_strftime w), content r)]
    \<and> record_calls (snd (lambda_handler w event)) =
        [PutItem (environ_get w ''DYNAMO_TABLE_NAME'') (spec_record w s (now_strftime w))]
    \<and> recorded (snd (lambda_handler w event)) = [spec_record w s (now_strftime w)]
    \<and> FilePath (spec_record w s (now_strftime w)) = spec_path w s (now_strftime w)
    \<and> Timestamp (spec_record w s (now_strftime w)) = now_strftime w
    \<and> sent (snd (lambda_handler w event)) =
        [notice_email w s cfg ''Submission Received Successfully''
           (success_body (spec_path w s (now_strftime w)))]"
proof -
  note run = handler_from_phases [OF assms(1) assms(3) dispatch_success_ok [OF assms(2) assms(4-14)]]
  show ?thesis
    by (simp add: run kind_defs spec_record_def)
qed


theorem success_workflow_effects_witness:
  "fst (lambda_handler demo_world (demo_event ''SUCCESS'')) = Inr ()
   \<and> stored (snd (lambda_handler demo_world (demo_event ''SUCCESS''))) =
       [(''ada@example.com/a-17/submission_2_20231120153000.zip'', ''PK-archive'')]
   \<and> map FilePath (recorded (snd (lambda_handler demo_world (demo_event ''SUCCESS'')))) =
       [''ada@example.com/a-17/submission_2_20231120153000.zip'']
   \<and> map Timestamp (recorded (snd (lambda_handler demo_world (demo_event ''SUCCESS'')))) =
       [''20231120153000'']
   \<and> map Subject (sent (snd (lambda_handler demo_world (demo_event ''SUCCESS'')))) =
       [PStr ''Submission Received Successfully'']"
proof -
  let ?w = demo_world and ?s = "demo_submission ''SUCCESS''"
  let ?r = "\<lparr>status_code = 200, content = ''PK-archive''\<rparr>"
  have h1: "fst (read_message ?w (demo_event ''SUCCESS'')) = Inr ?s"
    by (simp add: demo_read_message demo_statuses_def)
  have h2: "status ?s = PStr ''SUCCESS''"
    by (simp add: demo_submission_def)
  have h3: "fst (prepare ?w ?s) = Inr demo_config"
    by (simp add: demo_prepare)
  have h4: "requests_get ?w 1 (submission_url ?s) = Inr ?r"
    by (simp add: demo_world_def)
  have h5: "status_code ?r = 200" and h6: "content ?r \<noteq> []"
    by simp_all
  have h7: "upload_from_string ?w (bucket_name demo_config) (spec_path ?w ?s (now_strftime ?w))
              (content ?r) = None"
    by (simp add: demo_world_def)
  have h8: "smtp_connect ?w = None"
    and h9: "smtp_login ?w (mailgun_user_name demo_config) (mailgun_key demo_config) = None"
    and h10: "smtp_sendmail ?w (notice_email ?w ?s demo_config ''Submission Received Successfully''
                (success_body (spec_path ?w ?s (now_strftime ?w)))) = None"
    and h11: "smtp_quit ?w = None"
    and h12: "boto3_resource ?w = None"
    and h13: "dynamodb_Table ?w (environ_get ?w ''DYNAMO_TABLE_NAME'') = None"
    and h14: "put_item ?w (environ_get ?w ''DYNAMO_TABLE_NAME'') (spec_record ?w ?s (now_strftime ?w)) = None"
    by (simp_all add: demo_world_def)
  have ts: "now_strftime ?w = ''20231120153000''"
    by (simp add: demo_world_def)
  show ?thesis
    using success_workflow_effects [OF h1 h2 h3 h4 h5 h6 h7 h8 h9 h10 h11 h12 h13 h14]
    by (simp add: demo_spec_path ts notice_email_def spec_record_def)
qed

text \<open>
  Claim C1. "For every event whose dispatch raises an exception (including the unknown
  status case), the top-level handler catches the exception, sends a generic error email
  and returns normally." The handler of line 125 does catch it, but line 127 calls
  \<^verbatim>\<open>send_email\<close> with eight arguments where eleven are required: on an event with
  the unknown status \<^verbatim>\<open>PENDING\<close> the invocation ends in \<^verbatim>\<open>TypeError\<close> and no
  email is sent.
\<close>

theorem unknown_status_escapes_as_TypeError:
  "lambda_handler demo_world (demo_event ''PENDING'') =
     (Inl TypeError,
      [(Fetch (PStr ''https://example.com/hw1.zip''), None),
       (LogError ''Error in processing submission: '' (ValueError ''Non-success status received''), None)])
   \<and> sent (snd (lambda_handler demo_world (demo_event ''PENDING''))) = []"
proof -
  have "dispatch demo_world (demo_submission ''PENDING'') demo_config =
          (Inl (ValueError ''Non-success status received''), [])"
    by (simp add: dispatch_def demo_submission_def proc_defs)
  then have "lambda_handler demo_world (demo_event ''PENDING'') =
     (Inl TypeError,
      [(Fetch (PStr ''https://example.com/hw1.zip''), None),
       (LogError ''Error in processing submission: '' (ValueError ''Non-success status received''), None)])"
    by (simp add: lambda_handler_def demo_read_message demo_statuses_def demo_prepare
          on_exception_raises)
  then show ?thesis by simp
qed

text \<open>
  Claim C2. "For every event whose status is not one of the five recognized values, and
  for every SUCCESS event whose fetch returns a non-200 status code or an empty body: no
  object-store write and no record-store write occurs, exactly one generic error email is
  sent, and the invocation completes without raising." On a SUCCESS event whose URL
  answers 404 the handler writes nothing, but the call of line 127 raises
  \<^verbatim>\<open>TypeError\<close>: no email is sent and the invocation raises.
\<close>

theorem failed_fetch_escapes_as_TypeError:
  "lambda_handler not_found_world (demo_event ''SUCCESS'') =
     (Inl TypeError,
      [(Fetch (PStr ''https://example.com/hw1.zip''), None),
       (Fetch (PStr ''https://example.com/hw1.zip''), None),
       (LogError ''Error in processing submission: '' (ValueError ''Invalid URL or empty content''), None)])
   \<and> sent (snd (lambda_handler not_found_world (demo_event ''SUCCESS''))) = []"
proof -
  have "lambda_handler not_found_world (demo_event ''SUCCESS'') =
     (Inl TypeError,
      [(Fetch (PStr ''https://example.com/hw1.zip''), None),
       (Fetch (PStr ''https://example.com/hw1.zip''), None),
       (LogError ''Error in processing submission: '' (ValueError ''Invalid URL or empty content''), None)])"
    by (simp add: eval_defs not_found_world_def)
  then show ?thesis by simp
qed

text \<open>
  Claim C4. "A StoredSubmission and its SubmissionRecord are created together or not at
  all." When the record put is refused after the upload has succeeded, the blob exists
  without its record: nothing in the handler undoes the upload.
\<close>

theorem blob_without_record_counterexample:
  "stored (snd (lambda_handler put_refused_world (demo_event ''SUCCESS''))) =
     [(''ada@example.com/a-17/submission_2_20231120153000.zip'', ''PK-archive'')]
   \<and> recorded (snd (lambda_handler put_refused_world (demo_event ''SUCCESS''))) = []"
  by (simp add: eval_defs put_refused_world_def kind_defs)

text \<open>
  Claim C4, as amended. In every invocation a record is put only after a blob has been
  stored at the record's \<open>FilePath\<close>, and an invocation that returns without raising
  has created both or neither.
\<close>

theorem record_only_with_blob:
  "(\<forall>it \<in> set (recorded (snd (lambda_handler w event))).
      \<exists>d. (FilePath it, d) \<in> set (stored (snd (lambda_handler w event))))
   \<and> (fst (lambda_handler w event) = Inr () \<longrightarrow>
        (stored (snd (lambda_handler w event)) = []) = (recorded (snd (lambda_handler w event)) = []))"
proof (cases "fst (read_message w event)")
  case (Inl e)
  then show ?thesis by (simp add: handler_calls)
next
  case s: (Inr s)
  show ?thesis
  proof (cases "fst (prepare w s)")
    case (Inl e)
    with s show ?thesis by (simp add: handler_calls prepare_frame)
  next
    case cfg: (Inr cfg)
    have tr: "stored (snd (lambda_handler w event)) = stored (snd (dispatch w s cfg))"
      "recorded (snd (lambda_handler w event)) = recorded (snd (dispatch w s cfg))"
      using s cfg by (simp_all add: handler_calls prepare_frame split: sum.splits)
    have res: "fst (lambda_handler w event) = Inr () \<Longrightarrow> fst (dispatch w s cfg) = Inr ()"
      using s cfg by (simp add: handler_result split: sum.splits)
    show ?thesis
      unfolding tr using dispatch_record_after_blob [of _ w s cfg]
        dispatch_returns_together [of w s cfg "()"] res by blast
  qed
qed

theorem record_only_with_blob_witness:
  "recorded (snd (lambda_handler demo_world (demo_event ''SUCCESS''))) \<noteq> []
   \<and> fst (lambda_handler demo_world (demo_event ''SUCCESS'')) = Inr ()
   \<and> stored (snd (lambda_handler demo_world (demo_event ''SUCCESS''))) \<noteq> []"
proof -
  have run: "lambda_handler demo_world (demo_event ''SUCCESS'') =
     (Inr (),
      [(Fetch (PStr ''https://example.com/hw1.zip''), None),
       (Fetch (PStr ''https://example.com/hw1.zip''), None),
       (Upload ''submissions'' ''ada@example.com/a-17/submission_2_20231120153000.zip'' ''PK-archive'', None),
       (SmtpConnect, None),
       (SmtpLogin (PStr ''postmaster'') (PStr ''key-1''), None),
       (SmtpSendmail (notice_email demo_world (demo_submission ''SUCCESS'') demo_config
          ''Submission Received Successfully''
          (success_body ''ada@example.com/a-17/submission_2_20231120153000.zip'')), None),
       (SmtpQuit, None),
       (PutItem (PStr ''Submissions'')
          (spec_record demo_world (demo_submission ''SUCCESS'') ''20231120153000''), None)])"
    by (simp add: eval_defs notice_email_def spec_record_def spec_path_def)
  have h1: "recorded (snd (lambda_handler demo_world (demo_event ''SUCCESS''))) \<noteq> []"
    and h2: "fst (lambda_handler demo_world (demo_event ''SUCCESS'')) = Inr ()"
    by (simp_all add: run)
  show ?thesis
    using h1 h2 record_only_with_blob [of demo_world "demo_event ''SUCCESS''"] by auto
qed

text \<open>
  Claim C7. "For every call to the email notifier, a failure of the mail transport
  (connection or send) is caught and logged internally and never propagated to the
  caller: an email failure never causes the handler invocation to fail." The connection
  is opened at line 157, before the \<^verbatim>\<open>try\<close>: when the relay refuses it, the
  exception leaves \<^verbatim>\<open>send_email\<close>, and the invocation fails.
\<close>

theorem connection_failure_propagates_counterexample:
  "fst (send_email no_relay_world
          (notify_args (demo_submission ''NO_CONTENT'') demo_config
             ''Submission Failed - Empty File''
             ''Your Submission could not be accepted as the file does not have any content'')) =
     Inl (SMTPException ''SMTPConnectError'')
   \<and> fst (lambda_handler no_relay_world (demo_event ''NO_CONTENT'')) = Inl TypeError"
  by (simp add: eval_defs no_relay_world_def)

text \<open>
  Claim C7, as amended. For every call to the email notifier with its eleven arguments in
  which the connection is opened and the final \<^verbatim>\<open>quit\<close> returns, a failure of the
  login or of the send that is an \<^verbatim>\<open>SMTPException\<close> is caught and logged, and the
  notifier returns normally.
\<close>

theorem smtp_failure_is_absorbed:
  assumes "length args = 11"
    and "smtp_connect w = None" and "smtp_quit w = None"
    and "absorbed (smtp_login w (args ! 0) (args ! 1))"
    and "absorbed (smtp_sendmail w (mime_message w args))"
  shows "fst (send_email w args) = Inr ()
    \<and> (\<forall>e. smtp_login w (args ! 0) (args ! 1) = Some e \<longrightarrow>
          (LogError ''SMTPException: '' e, None) \<in> set (snd (send_email w args)))
    \<and> (\<forall>e. smtp_login w (args ! 0) (args ! 1) = None \<longrightarrow>
          smtp_sendmail w (mime_message w args) = Some e \<longrightarrow>
          (LogError ''SMTPException: '' e, None) \<in> set (snd (send_email w args)))"
  using assms
  by (auto simp add: send_email_def absorbed_def proc_defs Let_def split: option.splits)

theorem smtp_failure_is_absorbed_witness:
  "fst (send_email login_refused_world
          (notify_args (demo_submission ''NO_CONTENT'') demo_config
             ''Submission Failed - Empty File''
             ''Your Submission could not be accepted as the file does not have any content'')) = Inr ()
   \<and> (LogError ''SMTPException: '' (SMTPException ''SMTPAuthenticationError''), None)
       \<in> set (snd (send_email login_refused_world
          (notify_args (demo_submission ''NO_CONTENT'') demo_config
             ''Submission Failed - Empty File''
             ''Your Submission could not be accepted as the file does not have any content'')))"
proof -
  let ?w = login_refused_world
  let ?args = "notify_args (demo_submission ''NO_CONTENT'') demo_config
             ''Submission Failed - Empty File''
             ''Your Submission could not be accepted as the file does not have any content''"
  have h1: "length ?args = 11"
    by (simp add: notify_args_def)
  have h2: "smtp_connect ?w = None" and h3: "smtp_quit ?w = None"
    by (simp_all add: login_refused_world_def demo_world_def)
  have login: "smtp_login ?w (?args ! 0) (?args ! 1) = Some (SMTPException ''SMTPAuthenticationError'')"
    by (simp add: login_refused_world_def)
  have h4: "absorbed (smtp_login ?w (?args ! 0) (?args ! 1))"
    using login by (simp add: absorbed_def is_SMTPException_def)
  have h5: "absorbed (smtp_sendmail ?w (mime_message ?w ?args))"
    by (simp add: login_refused_world_def demo_world_def absorbed_def)
  show ?thesis
    using smtp_failure_is_absorbed [OF h1 h2 h3 h4 h5] login by blast
qed

text \<open>
  Claim C5. "For every event, the handler dispatches on the status field before performing
  any content fetch, and a fetch of submissionUrl occurs only inside the SUCCESS workflow;
  for the four non-SUCCESS recognized statuses the workflow is notify-only (no fetch is
  performed)." The code has the fetch of the SUCCESS workflow at line 68, but line 39
  also fetches, for every message and before the dispatch, into a variable that is never
  read: on a \<^verbatim>\<open>NO_CONTENT\<close> event the handler fetches the URL and then sends the
  notice.
\<close>

theorem no_content_event_is_fetched:
  "lambda_handler demo_world (demo_event ''NO_CONTENT'') =
     (Inr (),
      [(Fetch (PStr ''https://example.com/hw1.zip''), None),
       (SmtpConnect, None),
       (SmtpLogin (PStr ''postmaster'') (PStr ''key-1''), None),
       (SmtpSendmail (notice_email demo_world (demo_submission ''NO_CONTENT'') demo_config
          ''Submission Failed - Empty File''
          ''Your Submission could not be accepted as the file does not have any content''), None),
       (SmtpQuit, None)])
   \<and> fetch_calls (snd (lambda_handler demo_world (demo_event ''NO_CONTENT''))) =
       [Fetch (PStr ''https://example.com/hw1.zip'')]"
proof -
  have "lambda_handler demo_world (demo_event ''NO_CONTENT'') =
     (Inr (),
      [(Fetch (PStr ''https://example.com/hw1.zip''), None),
       (SmtpConnect, None),
       (SmtpLogin (PStr ''postmaster'') (PStr ''key-1''), None),
       (SmtpSendmail (notice_email demo_world (demo_submission ''NO_CONTENT'') demo_config
          ''Submission Failed - Empty File''
          ''Your Submission could not be accepted as the file does not have any content''), None),
       (SmtpQuit, None)])"
    by (simp add: eval_defs notice_email_def)
  then show ?thesis by (simp add: kind_defs)
qed

text \<open>
  Claim C6. "For every invocation whose credential blob decodes to malformed JSON, the
  invocation fails fast: it raises before any workflow step (content fetch, store write,
  email send, or record write) executes." The credentials are parsed at line 46, after
  the stray fetch of line 39: with a truncated credential blob the URL has been fetched
  when \<^verbatim>\<open>JSONDecodeError\<close> is raised.
\<close>

theorem bad_credentials_raise_after_fetch:
  "lambda_handler bad_credentials_world (demo_event ''NO_CONTENT'') =
     (Inl JSONDecodeError,
      [(Fetch (PStr ''https://example.com/hw1.zip''), None),
       (LogError ''Error: '' JSONDecodeError, None)])"
  by (simp add: eval_defs bad_credentials_world_def)

text \<open>
  Claim C8. "For every event with status in NO_CONTENT, INVALID_URL, MAX_ATTEMPTS,
  DEADLINE_PASSED: no object-store write and no record-store write occurs, and exactly
  one failure email with the status-specific subject and body is sent." Lines 104 to 109
  send the notice for \<^verbatim>\<open>INVALID_URL\<close>, but the stray fetch of line 39 runs first and
  outside the \<^verbatim>\<open>try\<close>: when the URL cannot be reached the invocation ends there and
  no email is sent, although the mail relay works.
\<close>

theorem unreachable_url_kills_notice:
  "lambda_handler unreachable_world (demo_event ''INVALID_URL'') =
     (Inl (OtherException ''requests.exceptions.ConnectionError''),
      [(Fetch (PStr ''https://example.com/hw1.zip''),
        Some (OtherException ''requests.exceptions.ConnectionError''))])
   \<and> sent (snd (lambda_handler unreachable_world (demo_event ''INVALID_URL''))) = []"
proof -
  have "lambda_handler unreachable_world (demo_event ''INVALID_URL'') =
     (Inl (OtherException ''requests.exceptions.ConnectionError''),
      [(Fetch (PStr ''https://example.com/hw1.zip''),
        Some (OtherException ''requests.exceptions.ConnectionError''))])"
    by (simp add: eval_defs unreachable_world_def)
  then show ?thesis by simp
qed

text \<open>
  Claim C10. "For every event whose embedded message parses as JSON but lacks any of the
  seven required fields, the invocation raises a key-lookup error before any content
  fetch, storage access, email send, or record write is attempted." The message
  \<^verbatim>\<open>[]\<close> parses as JSON and has none of the fields; line 27 raises \<^verbatim>\<open>TypeError\<close>
  on it, which is not a key-lookup error.
\<close>

theorem array_message_raises_TypeError_counterexample:
  "json_parse demo_world ''[]'' = Some (PList [])
   \<and> lambda_handler demo_world (sns_event (PStr ''[]'')) = (Inl TypeError, [])"
  by (simp add: eval_defs)

text \<open>
  Claim C10, as amended. For every event whose embedded message parses as JSON but lacks
  any of the seven required fields, the invocation raises before any content fetch,
  storage access, email send or record write is attempted (the trace is empty): a
  \<^verbatim>\<open>KeyError\<close> for the first missing key, in the order of lines 27 to 33, when the
  message is a JSON object, and a \<^verbatim>\<open>TypeError\<close> when it is any other JSON value.
\<close>

theorem incomplete_message_raises_before_any_call:
  assumes "event_message event = Inr (PStr m)" and "json_parse w m = Some v"
    and "k \<in> set required_fields" and "lacks v k"
  shows "\<exists>k'. find (lacks v) required_fields = Some k'
           \<and> lambda_handler w event = (Inl (lookup_exn v k'), [])"
proof (cases v)
  case (PDict kvs)
  with assms show ?thesis
    by (auto simp add: lambda_handler_def read_message_def json_loads_def getitem_key_def
          proc_defs lacks_def lookup_exn_def required_fields_def split: option.splits)
qed (use assms in \<open>simp_all add: lambda_handler_def read_message_def json_loads_def
       getitem_key_def proc_defs lacks_def lookup_exn_def required_fields_def\<close>)

theorem incomplete_message_raises_before_any_call_witness:
  "event_message (sns_event (PStr ''{}'')) = Inr (PStr ''{}'')
   \<and> json_parse demo_world ''{}'' = Some (PDict [])
   \<and> ''attempt'' \<in> set required_fields \<and> lacks (PDict []) ''attempt''
   \<and> lambda_handler demo_world (sns_event (PStr ''{}'')) = (Inl (KeyError (PStr ''status'')), [])"
proof -
  have h1: "event_message (sns_event (PStr ''{}'')) = Inr (PStr ''{}'')"
    by (rule event_message_sns_event)
  have h2: "json_parse demo_world ''{}'' = Some (PDict [])"
    by (simp add: demo_defs)
  have h3: "''attempt'' \<in> set required_fields"
    by (simp add: required_fields_def)
  have h4: "lacks (PDict []) ''attempt''"
    by (simp add: lacks_def)
  have h5: "find (lacks (PDict [])) required_fields = Some ''status''"
    by (simp add: lacks_def required_fields_def)
  show ?thesis
    using h1 h2 h3 h4 incomplete_message_raises_before_any_call [OF h1 h2 h3 h4]
    by (simp add: h5 lookup_exn_def)
qed

end
